theory Spec2Isabelle
  imports Complex_Main "HOL-Library.Sublist"
begin

section \<open>Python values, strings and integers\<close>

text \<open>
  A Python \<open>str\<close> is modelled as a \<open>string\<close>.  The functions of this development only
  compare against, split on and search for ASCII text, so the model works on the
  ASCII range and leaves every other character as it is.
\<close>

datatype error =
    AssertionError
  | KeyError
  | TypeError
  | ValueError
  | OSError
  | YAMLError

definition lower_char :: "char \<Rightarrow> char" where
  "lower_char c =
     (case map_of (zip ''ABCDEFGHIJKLMNOPQRSTUVWXYZ'' ''abcdefghijklmnopqrstuvwxyz'') c of
        Some d \<Rightarrow> d
      | None \<Rightarrow> c)"

definition lower :: "string \<Rightarrow> string" where
  "lower w = map lower_char w"


text \<open>
  \<open>s.split(sep)\<close> for a separator of one character: the list of fields is never
  empty, and consecutive separators give empty fields.
\<close>

fun split_on :: "char \<Rightarrow> string \<Rightarrow> string list" where
  "split_on sep [] = [[]]"
| "split_on sep (c # cs) =
     (if c = sep then [] # split_on sep cs
      else (case split_on sep cs of
              [] \<Rightarrow> [[c]]
            | w # ws \<Rightarrow> (c # w) # ws))"

text \<open>
  \<open>s.split(sep)[0]\<close> for a non-empty separator string: the text in front of the
  first occurrence of \<open>sep\<close>, or all of \<open>s\<close> when there is none.
\<close>

fun before_first :: "string \<Rightarrow> string \<Rightarrow> string" where
  "before_first sep [] = []"
| "before_first sep (c # cs) =
     (if prefix sep (c # cs) then [] else c # before_first sep cs)"

text \<open>\<open>str(n)\<close> and \<open>'{}'.format(n)\<close> for an integer: its decimal digits.\<close>

definition digit_char :: "nat \<Rightarrow> char" where
  "digit_char d = ''0123456789'' ! d"

fun str_nat :: "nat \<Rightarrow> string" where
  "str_nat n = (if n < 10 then [digit_char n] else str_nat (n div 10) @ [digit_char (n mod 10)])"

declare str_nat.simps [simp del]

definition str_int :: "int \<Rightarrow> string" where
  "str_int i = (if i < 0 then CHR ''-'' # str_nat (nat (- i)) else str_nat (nat i))"

text \<open>
  \<open>int(s)\<close> for a string, base ten: surrounding white space is stripped, one sign
  is allowed, and the digits may be grouped by single underscores.  Anything else raises
  \<open>ValueError\<close>, which is \<open>None\<close> here.  (The interpreter's limit on the number of
  digits of one conversion is not modelled.)
\<close>

definition is_space :: "char \<Rightarrow> bool" where
  "is_space c = (c \<in> set [CHR 0x09, CHR 0x0A, CHR 0x0B, CHR 0x0C, CHR 0x0D,
                           CHR 0x1C, CHR 0x1D, CHR 0x1E, CHR 0x1F, CHR 0x20])"

definition strip :: "string \<Rightarrow> string" where
  "strip s = rev (dropWhile is_space (rev (dropWhile is_space s)))"

definition digit_value :: "char \<Rightarrow> nat option" where
  "digit_value c = map_of (zip ''0123456789'' [0, 1, 2, 3, 4, 5, 6, 7, 8, 9]) c"

fun parse_digits :: "bool \<Rightarrow> nat \<Rightarrow> string \<Rightarrow> nat option" where
  "parse_digits after_digit acc [] = (if after_digit then Some acc else None)"
| "parse_digits after_digit acc (c # cs) =
     (case digit_value c of
        Some d \<Rightarrow> parse_digits True (10 * acc + d) cs
      | None \<Rightarrow>
          if c = CHR ''_'' \<and> after_digit then parse_digits False acc cs else None)"

definition py_int :: "string \<Rightarrow> int option" where
  "py_int s =
     (case strip s of
        [] \<Rightarrow> None
      | c # cs \<Rightarrow>
          if c = CHR ''-'' then map_option (\<lambda>n. - int n) (parse_digits False 0 cs)
          else if c = CHR ''+'' then map_option int (parse_digits False 0 cs)
          else map_option int (parse_digits False 0 (c # cs)))"

text \<open>
  The arguments of a worker invocation are formatted with \<open>'{}'.format\<close>.  A float
  argument is carried by the text Python prints for it: the modelled functions never
  compute with one.
\<close>

datatype pyval =
    PNone
  | PBool bool
  | PInt int
  | PFloat string
  | PStr string

fun format_value :: "pyval \<Rightarrow> string" where
  "format_value PNone = ''None''"
| "format_value (PBool b) = (if b then ''True'' else ''False'')"
| "format_value (PInt i) = str_int i"
| "format_value (PFloat repr) = repr"
| "format_value (PStr s) = s"

subsection \<open>Bytes\<close>

text \<open>
  A line read from the pipe of a child process is a \<open>bytes\<close> object; \<open>char\<close> is a
  byte.  \<open>line.rstrip()\<close> drops the trailing ASCII white space, and \<open>str(line)\<close> is
  the \<open>repr\<close> of the bytes: \<open>b'...'\<close>, in double quotes when the bytes hold a single
  quote and no double quote, with a backslash in front of the quote character and of a
  backslash, \<open>\t\<close>, \<open>\n\<close>, \<open>\r\<close> for these three, and \<open>\xhh\<close> for every other
  byte outside the printable ASCII range.
\<close>

definition is_bytes_space :: "char \<Rightarrow> bool" where
  "is_bytes_space c = (c \<in> set [CHR 0x09, CHR 0x0A, CHR 0x0B, CHR 0x0C, CHR 0x0D, CHR 0x20])"

definition rstrip_bytes :: "string \<Rightarrow> string" where
  "rstrip_bytes line = rev (dropWhile is_bytes_space (rev line))"

definition hex_char :: "nat \<Rightarrow> char" where
  "hex_char d = ''0123456789abcdef'' ! d"

definition escape_byte :: "char \<Rightarrow> char \<Rightarrow> string" where
  "escape_byte quote c =
     (if c = quote \<or> c = CHR 0x5C then [CHR 0x5C, c]
      else if c = CHR 0x09 then [CHR 0x5C, CHR ''t'']
      else if c = CHR 0x0A then [CHR 0x5C, CHR ''n'']
      else if c = CHR 0x0D then [CHR 0x5C, CHR ''r'']
      else if (of_char c :: nat) < 32 \<or> 127 \<le> (of_char c :: nat)
        then [CHR 0x5C, CHR ''x'', hex_char ((of_char c :: nat) div 16),
              hex_char ((of_char c :: nat) mod 16)]
      else [c])"

definition bytes_quote :: "string \<Rightarrow> char" where
  "bytes_quote line =
     (if CHR 0x27 \<in> set line \<and> CHR 0x22 \<notin> set line then CHR 0x22 else CHR 0x27)"

definition str_of_bytes :: "string \<Rightarrow> string" where
  "str_of_bytes line =
     [CHR ''b'', bytes_quote line] @ concat (map (escape_byte (bytes_quote line)) line)
       @ [bytes_quote line]"

section \<open>The file system\<close>

text \<open>
  The file system is a finite table from path names, as the program spells them, to
  nodes; the first entry of a name is the one that counts.  A directory is looked up
  without its trailing slashes, the empty path names nothing, and the entries of a
  directory are the names one level below it.  \<open>os.listdir\<close> lists them in the
  table's order.  Every failing system call raises \<open>OSError\<close> (its subclasses are not
  told apart).
\<close>

datatype node = File string | Dir

type_synonym filesystem = "(string \<times> node) list"

definition lookup :: "filesystem \<Rightarrow> string \<Rightarrow> node option" where
  "lookup fs p = (if p = [] then None else map_of fs p)"

definition rstrip_slash :: "string \<Rightarrow> string" where
  "rstrip_slash p = rev (dropWhile (\<lambda>c. c = CHR ''/'') (rev p))"

definition dir_key :: "string \<Rightarrow> string" where
  "dir_key p = (if p \<noteq> [] \<and> list_all (\<lambda>c. c = CHR ''/'') p then ''/'' else rstrip_slash p)"

definition isfile :: "filesystem \<Rightarrow> string \<Rightarrow> bool" where
  "isfile fs p = (case lookup fs p of Some (File _) \<Rightarrow> True | _ \<Rightarrow> False)"

definition isdir :: "filesystem \<Rightarrow> string \<Rightarrow> bool" where
  "isdir fs p = (case lookup fs (dir_key p) of Some Dir \<Rightarrow> True | _ \<Rightarrow> False)"

text \<open>\<open>os.path.join\<close> of two components and \<open>os.path.dirname\<close>, as \<open>posixpath\<close> has them.\<close>

definition join :: "string \<Rightarrow> string \<Rightarrow> string" where
  "join a b =
     (if prefix ''/'' b then b
      else if a = [] \<or> last a = CHR ''/'' then a @ b
      else a @ ''/'' @ b)"

definition dirname :: "string \<Rightarrow> string" where
  "dirname p =
     (let head = rev (dropWhile (\<lambda>c. c \<noteq> CHR ''/'') (rev p))
      in if head \<noteq> [] \<and> \<not> list_all (\<lambda>c. c = CHR ''/'') head then rstrip_slash head else head)"

definition child_name :: "string \<Rightarrow> string \<Rightarrow> string option" where
  "child_name d p =
     (let pre = join d [];
          name = drop (length pre) p
      in if prefix pre p \<and> name \<noteq> [] \<and> CHR ''/'' \<notin> set name then Some name else None)"

definition listdir :: "filesystem \<Rightarrow> string \<Rightarrow> error + string list" where
  "listdir fs d =
     (if isdir fs d then Inr (remdups (List.map_filter (child_name d) (map fst fs)))
      else Inl OSError)"

definition delete_entry :: "string \<Rightarrow> filesystem \<Rightarrow> filesystem" where
  "delete_entry p fs = filter (\<lambda>e. fst e \<noteq> p) fs"

definition os_remove :: "filesystem \<Rightarrow> string \<Rightarrow> error + filesystem" where
  "os_remove fs p = (if isfile fs p then Inr (delete_entry p fs) else Inl OSError)"

text \<open>
  Opening a file for writing creates or truncates it; it fails on a directory and when
  the directory of the path does not exist (a path without a directory part is in the
  working directory).
\<close>

definition write_file :: "filesystem \<Rightarrow> string \<Rightarrow> string \<Rightarrow> error + filesystem" where
  "write_file fs p content =
     (if p = [] \<or> isdir fs p \<or> \<not> (dirname p = [] \<or> isdir fs (dirname p)) then Inl OSError
      else Inr ((p, File content) # delete_entry p fs))"

definition read_file :: "filesystem \<Rightarrow> string \<Rightarrow> error + string" where
  "read_file fs p = (case lookup fs p of Some (File content) \<Rightarrow> Inr content | _ \<Rightarrow> Inl OSError)"

section \<open>parameters.py\<close>

definition SLURM_CONSTRAINT :: string where
  "SLURM_CONSTRAINT = ''Xeon&Gold6342''"

definition SLURM_TRAIN_MEMORY :: "int option" where
  "SLURM_TRAIN_MEMORY = Some 2000"

definition SLURM_TEST_MEMORY :: int where
  "SLURM_TEST_MEMORY = 90000"

definition TRAINING_SET_TIME_LIMIT_WITHOUT_SOLUTION :: int where
  "TRAINING_SET_TIME_LIMIT_WITHOUT_SOLUTION = 120"

definition TRAINING_SET_TIME_LIMIT_WITH_SOLUTION :: int where
  "TRAINING_SET_TIME_LIMIT_WITH_SOLUTION = 120"

definition TRAINING_SET_MIN_TIME_LIMIT :: int where
  "TRAINING_SET_MIN_TIME_LIMIT = 5"

definition TRAINING_SET_PRESOLVE_TIME_LIMIT :: int where
  "TRAINING_SET_PRESOLVE_TIME_LIMIT = 10"

definition TRAINING_SET_MIN_NODES :: int where
  "TRAINING_SET_MIN_NODES = 50"

definition TRAINING_SET_MAX_NODES :: int where
  "TRAINING_SET_MAX_NODES = 20000"

section \<open>utilities.py\<close>

text \<open>
  The controller runs against a world it changes step by step: the file system, the
  scheduler commands it has launched (in order), and the seconds it has slept.  What it
  does not control is the environment: what launching a command prints (or that the
  launch itself fails), and what the other processes do to the file system while the
  controller sleeps.
\<close>

record world =
  files :: filesystem
  calls :: "string list list"
  clock :: nat

datatype spawn = SpawnError | Stdout "string list"

record env =
  sbatch :: "world \<Rightarrow> string list \<Rightarrow> spawn"
  during_sleep :: "nat \<Rightarrow> filesystem \<Rightarrow> filesystem"

definition sleep :: "env \<Rightarrow> nat \<Rightarrow> world \<Rightarrow> world" where
  "sleep e seconds w =
     w\<lparr>files := during_sleep e (clock w) (files w), clock := clock w + seconds\<rparr>"

subsection \<open>utilities.remove_temp_files\<close>

text \<open>
  The loop over the listed names; an exception leaves the files removed so far removed.
\<close>

fun remove_files :: "string \<Rightarrow> string list \<Rightarrow> filesystem \<Rightarrow> (error + unit) \<times> filesystem" where
  "remove_files temp_dir [] fs = (Inr (), fs)"
| "remove_files temp_dir (file # rest) fs =
     (case os_remove fs (join temp_dir file) of
        Inl err \<Rightarrow> (Inl err, fs)
      | Inr fs' \<Rightarrow> remove_files temp_dir rest fs')"

definition remove_temp_files :: "string \<Rightarrow> filesystem \<Rightarrow> (error + unit) \<times> filesystem" where
  "remove_temp_files temp_dir fs =
     (case listdir fs temp_dir of
        Inl err \<Rightarrow> (Inl err, fs)
      | Inr listed \<Rightarrow> remove_files temp_dir listed fs)"

subsection \<open>utilities.run_python_slurm_job\<close>

text \<open>
  The dependency string of the source: every id followed by a colon, the pieces
  concatenated, the last character cut off.
\<close>

definition dependency_str :: "int list \<Rightarrow> string" where
  "dependency_str dependencies = butlast (concat (map (\<lambda>dependency. str_int dependency @ '':'') dependencies))"

definition slurm_cmd ::
  "string \<Rightarrow> string \<Rightarrow> string \<Rightarrow> int \<Rightarrow> pyval list \<Rightarrow> int list \<Rightarrow> bool \<Rightarrow> string list" where
  "slurm_cmd python_file job_name outfile time_limit arg_list dependencies exclusive =
     (let cmd_1 = [''sbatch'',
                   ''--job-name='' @ job_name,
                   ''--time=0-00:00:'' @ str_int time_limit,
                   ''--cpus-per-task=1'']
                  @ (if exclusive then [''--exclusive''] else [''--ntasks=1'']);
          cmd_2 = (if exclusive then [''--mem='' @ str_int SLURM_TEST_MEMORY]
                   else (case SLURM_TRAIN_MEMORY of
                           Some mem \<Rightarrow> [''--mem='' @ str_int mem]
                         | None \<Rightarrow> []))
                  @ (if length dependencies > 0
                     then [''--dependency=afterany:'' @ dependency_str dependencies]
                     else []);
          cmd_3 = (if exclusive
                   then [''--constraint='' @ SLURM_CONSTRAINT, ''--output'', outfile,
                         ''--error'', outfile, ''-A'', ''PUT EXCLUSIVE GROUP HERE'',
                         ''--partition=PUT EXCLUSIVE PARTITION HERE'', python_file]
                   else [''--constraint='' @ SLURM_CONSTRAINT, ''--output'', outfile,
                         ''--error'', outfile, ''-A'', ''PUT NON_EXCLUSIVE GROUP HERE'',
                         ''--partition=PUT NON_EXCLUSIVE PARTITION HERE'', python_file])
      in cmd_1 @ cmd_2 @ cmd_3 @ map format_value arg_list)"

text \<open>
  The job id is read from the first line the scheduler prints: the line, stripped on the
  right, is turned into a string with \<open>str\<close>, which for bytes is their \<open>repr\<close>; with
  no output at all the line is the empty string.
\<close>

definition parse_job_id :: "string list \<Rightarrow> error + int" where
  "parse_job_id stdout =
     (let job_line = (case stdout of [] \<Rightarrow> [] | line # _ \<Rightarrow> str_of_bytes (rstrip_bytes line))
      in if \<not> sublist ''Submitted batch job'' job_line then Inl AssertionError
         else (case py_int (hd (split_on (CHR 0x27) (last (split_on (CHR '' '') job_line)))) of
                 None \<Rightarrow> Inl ValueError
               | Some job_id \<Rightarrow> Inr job_id))"

text \<open>
  The types of the arguments are those the assertions of the source ask for, except for
  \<open>time_limit\<close>, whose type the model checks as the source does (a \<open>bool\<close> is not an
  \<open>int\<close> for \<open>type(x) == int\<close>).  \<open>dependencies\<close> is \<open>None\<close> or a list of integers.
  The command is recorded in \<open>calls\<close> when it is launched, and not before.
\<close>

definition run_python_slurm_job ::
  "env \<Rightarrow> world \<Rightarrow> string \<Rightarrow> string \<Rightarrow> string \<Rightarrow> pyval \<Rightarrow> pyval list \<Rightarrow> int list option \<Rightarrow> bool
     \<Rightarrow> (error + int) \<times> world" where
  "run_python_slurm_job e w python_file job_name outfile time_limit arg_list dependencies exclusive =
     (let deps = (case dependencies of None \<Rightarrow> [] | Some ds \<Rightarrow> ds)
      in if \<not> (isfile (files w) python_file \<and> suffix ''.py'' python_file)
           then (Inl AssertionError, w)
         else if \<not> (\<not> isfile (files w) outfile \<and> suffix ''.out'' outfile)
           then (Inl AssertionError, w)
         else if \<not> isdir (files w) (dirname outfile)
           then (Inl AssertionError, w)
         else (case time_limit of
                 PInt t \<Rightarrow>
                   if 0 \<le> t \<and> t \<le> 100000000
                   then (let cmd = slurm_cmd python_file job_name outfile t arg_list deps exclusive;
                             w' = w\<lparr>calls := calls w @ [cmd]\<rparr>
                         in (case sbatch e w cmd of
                               SpawnError \<Rightarrow> (Inl OSError, w')
                             | Stdout out \<Rightarrow> (parse_job_id out, w')))
                   else (Inl AssertionError, w)
               | _ \<Rightarrow> (Inl AssertionError, w)))"

subsection \<open>utilities.get_filename\<close>

definition get_filename ::
  "string \<Rightarrow> string \<Rightarrow> int option \<Rightarrow> int option \<Rightarrow> string option \<Rightarrow> string" where
  "get_filename parent_dir instance rand_seed permutation_seed ext =
     (let base_file = instance
            @ (case rand_seed of None \<Rightarrow> [] | Some r \<Rightarrow> ''__seed__'' @ str_int r)
            @ (case permutation_seed of None \<Rightarrow> [] | Some p \<Rightarrow> ''__permute__'' @ str_int p)
            @ (case ext of None \<Rightarrow> [] | Some x \<Rightarrow> ''.'' @ x)
      in join parent_dir base_file)"

subsection \<open>utilities.str_to_bool\<close>

text \<open>
  The assertion \<open>type(word) == str\<close> is the type of the argument here.
\<close>

definition str_to_bool :: "string \<Rightarrow> bool" where
  "str_to_bool word = (lower word \<in> set [''yes'', ''true'', ''t'', ''1''])"

section \<open>Example inputs\<close>

text \<open>Concrete file systems on which the properties below are evaluated.\<close>

definition example_tree :: filesystem where
  "example_tree = [(''results'', Dir), (''results/a.yml'', File ''x''), (''results/b.stats'', File []),
                   (''outfiles'', Dir), (''outfiles/keep.out'', File ''y'')]"

definition example_env :: env where
  "example_env = \<lparr>sbatch = (\<lambda>w cmd. Stdout [''Submitted batch job 4242'' @ [CHR 0x0A]]),
                   during_sleep = (\<lambda>t fs. fs)\<rparr>"

definition example_world :: world where
  "example_world = \<lparr>files = [(''Slurm/solve_instance.py'', File []), (''outfiles'', Dir),
                             (''outfiles/done.out'', File ''log''), (''notes.txt'', File [])],
                     calls = [], clock = 0\<rparr>"

section \<open>Result records\<close>

text \<open>
  A result record is a YAML document.  \<open>yaml.safe_load\<close> and \<open>yaml.dump\<close> belong to
  a library outside the repository, so the functions that read or write a record take
  the loader and the dumper as parameters; a loader returns the parsed document or the
  parser's exception.  Only the shape the filter looks at is kept of a document: a
  mapping from field names to scalars, or something that is not a mapping.  A float is
  an exact rational, an infinity or a NaN: the filter only compares it with integer
  constants.
\<close>

datatype pyfloat = Finite rat | PosInf | NegInf | NaN

datatype yval = YNone | YBool bool | YInt int | YFloat pyfloat | YStr string | YOther

datatype ydoc = YMap "(string \<times> yval) list" | YNotMap

type_synonym loader = "string \<Rightarrow> error + ydoc"

type_synonym dumper = "(string \<times> yval) list \<Rightarrow> string"

text \<open>\<open>instance_data[key]\<close>: \<open>KeyError\<close> on a missing key, \<open>TypeError\<close> on a non-mapping.\<close>

definition getitem :: "ydoc \<Rightarrow> string \<Rightarrow> error + yval" where
  "getitem doc key =
     (case doc of
        YNotMap \<Rightarrow> Inl TypeError
      | YMap entries \<Rightarrow> (case map_of entries key of None \<Rightarrow> Inl KeyError | Some v \<Rightarrow> Inr v))"

text \<open>
  \<open>c <= v\<close> and \<open>v <= c\<close> for an integer constant \<open>c\<close>: numbers compare by value
  (a \<open>bool\<close> is 0 or 1, every comparison with NaN is false), anything else raises
  \<open>TypeError\<close>.
\<close>

fun int_le :: "int \<Rightarrow> yval \<Rightarrow> error + bool" where
  "int_le c (YInt i) = Inr (c \<le> i)"
| "int_le c (YBool b) = Inr (c \<le> (if b then 1 else 0))"
| "int_le c (YFloat (Finite r)) = Inr (of_int c \<le> r)"
| "int_le c (YFloat PosInf) = Inr True"
| "int_le c (YFloat NegInf) = Inr False"
| "int_le c (YFloat NaN) = Inr False"
| "int_le c YNone = Inl TypeError"
| "int_le c (YStr s) = Inl TypeError"
| "int_le c YOther = Inl TypeError"

fun le_int :: "yval \<Rightarrow> int \<Rightarrow> error + bool" where
  "le_int (YInt i) c = Inr (i \<le> c)"
| "le_int (YBool b) c = Inr ((if b then 1 else 0) \<le> c)"
| "le_int (YFloat (Finite r)) c = Inr (r \<le> of_int c)"
| "le_int (YFloat PosInf) c = Inr False"
| "le_int (YFloat NegInf) c = Inr True"
| "le_int (YFloat NaN) c = Inr False"
| "le_int YNone c = Inl TypeError"
| "le_int (YStr s) c = Inl TypeError"
| "le_int YOther c = Inl TypeError"

section \<open>Slurm/solve_instance.py\<close>

text \<open>
  The solver is outside the repository.  What one run of it hands to
  \<open>solve_model_and_extract_solve_info\<close> is kept in a record: the status, the other
  entries of the dictionary \<open>data\<close>, the text \<open>writeStatistics\<close> writes, and what
  the scan of that text (the loop over the lines of the statistics file) adds to
  \<open>data\<close>, or the exception the scan raises.
\<close>

record solver_run =
  run_status :: string
  run_fields :: "(string \<times> yval) list"
  run_statistics :: string
  run_stats_fields :: "error + (string \<times> yval) list"

definition solve_model_and_extract_solve_info ::
  "dumper \<Rightarrow> solver_run \<Rightarrow> int \<Rightarrow> int \<Rightarrow> string \<Rightarrow> string \<Rightarrow> bool \<Rightarrow> filesystem
     \<Rightarrow> (error + unit) \<times> filesystem" where
  "solve_model_and_extract_solve_info dump run rand_seed permutation_seed instance results_dir
       print_stats fs =
     (let data = run_fields run @ [(''status'', YStr (run_status run))];
          stat_file = get_filename results_dir instance (Some rand_seed) (Some permutation_seed)
                        (Some ''stats'')
      in if isfile fs stat_file then (Inl AssertionError, fs)
         else (case write_file fs stat_file (run_statistics run) of
                 Inl err \<Rightarrow> (Inl err, fs)
               | Inr fs1 \<Rightarrow>
                   (case (if run_status run \<in> set [''optimal'', ''timelimit'', ''nodelimit'', ''memlimit'']
                          then run_stats_fields run else Inr []) of
                      Inl err \<Rightarrow> (Inl err, fs1)
                    | Inr extra \<Rightarrow>
                        (case (if \<not> print_stats then os_remove fs1 stat_file else Inr fs1) of
                           Inl err \<Rightarrow> (Inl err, fs1)
                         | Inr fs2 \<Rightarrow>
                             (let yml_file = get_filename results_dir instance (Some rand_seed)
                                               (Some permutation_seed) (Some ''yml'')
                              in (case write_file fs2 yml_file (dump (data @ extra)) of
                                    Inl err \<Rightarrow> (Inl err, fs2)
                                  | Inr fs3 \<Rightarrow> (Inr (), fs3)))))))"

section \<open>Slurm/generate_instance_subset.py\<close>

subsection \<open>wait_for_jobs_to_finish\<close>

text \<open>
  The polling loop may run forever, so it is a partial function: \<open>None\<close> is the loop
  that never ends.
\<close>

partial_function (option) poll :: "env \<Rightarrow> string \<Rightarrow> world \<Rightarrow> world option" where
  "poll e marker w =
     (if isfile (files w) marker then Some w else poll e marker (sleep e 5 w))"

definition wait_for_jobs_to_finish ::
  "env \<Rightarrow> world \<Rightarrow> int list \<Rightarrow> string \<Rightarrow> ((error + unit) \<times> world) option" where
  "wait_for_jobs_to_finish e w slurm_job_ids outfiles_dir =
     (let safety_file_no_ext = join outfiles_dir ''safety_check''
      in (case run_python_slurm_job e w ''Slurm/safety_check.py'' ''cleaner''
                 (safety_file_no_ext @ ''.out'') (PInt 10) [PStr (safety_file_no_ext @ ''.txt'')]
                 (Some slurm_job_ids) False of
            (Inl err, w') \<Rightarrow> Some (Inl err, w')
          | (Inr _, w') \<Rightarrow>
              map_option (\<lambda>w''. (Inr (), w'')) (poll e (safety_file_no_ext @ ''.txt'') (sleep e 5 w'))))"

subsection \<open>filter_instances\<close>

text \<open>The worker's arguments for candidate \<open>i\<close>, and the loop that submits one job each.\<close>

definition worker_args ::
  "string \<Rightarrow> string \<Rightarrow> string \<Rightarrow> int \<Rightarrow> pyval \<Rightarrow> pyval \<Rightarrow> pyval list" where
  "worker_args results_dir instance_path instance scip_time_lim print_solution_path load_solution_path =
     [PStr results_dir, PStr instance_path, PStr instance, PInt 0, PInt 0, PInt scip_time_lim,
      PBool True, print_solution_path, load_solution_path, PBool True,
      PFloat ''0.0'', PFloat ''0.0'', PFloat ''0.0'', PFloat ''0.0'', PFloat ''0.0'', PFloat ''0.0'',
      PFloat ''0.0'', PFloat ''1.0'', PInt 1, PInt 1, PFloat ''1.0'', PFloat ''0.2'', PFloat ''0.4'',
      PBool False, PBool True, PBool False, PBool False]"

fun submit_jobs ::
  "env \<Rightarrow> string list \<Rightarrow> string list \<Rightarrow> string list \<Rightarrow> string \<Rightarrow> string \<Rightarrow> bool \<Rightarrow> bool
     \<Rightarrow> nat list \<Rightarrow> int list \<Rightarrow> world \<Rightarrow> (error + int list) \<times> world" where
  "submit_jobs e instance_paths instances solution_paths results_dir outfiles_dir
       load_solutions print_solutions [] slurm_job_ids w = (Inr slurm_job_ids, w)"
| "submit_jobs e instance_paths instances solution_paths results_dir outfiles_dir
       load_solutions print_solutions (i # rest) slurm_job_ids w =
     (let load_solution_path = (if load_solutions then PStr (solution_paths ! i) else PNone);
          print_solution_path = (if print_solutions then PStr (solution_paths ! i) else PNone);
          scip_time_lim = (if load_solutions then TRAINING_SET_TIME_LIMIT_WITH_SOLUTION
                           else TRAINING_SET_TIME_LIMIT_WITHOUT_SOLUTION)
      in (case run_python_slurm_job e w ''Slurm/solve_instance.py''
                 (instances ! i @ ''--0--0'')
                 (join outfiles_dir (''%j__'' @ instances ! i @ ''__0__0.out''))
                 (PInt (2 * scip_time_lim))
                 (worker_args results_dir (instance_paths ! i) (instances ! i) scip_time_lim
                    print_solution_path load_solution_path)
                 None False of
            (Inl err, w') \<Rightarrow> (Inl err, w')
          | (Inr ji, w') \<Rightarrow>
              submit_jobs e instance_paths instances solution_paths results_dir outfiles_dir
                load_solutions print_solutions rest (slurm_job_ids @ [ji]) w'))"

text \<open>
  The test of one record: the nested conditions of the source, each field read when its
  condition is reached and not before.
\<close>

definition is_suitable :: "ydoc \<Rightarrow> error + bool" where
  "is_suitable instance_data =
     (case getitem instance_data ''status'' of
        Inl err \<Rightarrow> Inl err
      | Inr status \<Rightarrow>
          if status \<noteq> YStr ''optimal'' then Inr False
          else (case getitem instance_data ''num_nodes'' of
                  Inl err \<Rightarrow> Inl err
                | Inr num_nodes \<Rightarrow>
                    (case int_le TRAINING_SET_MIN_NODES num_nodes of
                       Inl err \<Rightarrow> Inl err
                     | Inr False \<Rightarrow> Inr False
                     | Inr True \<Rightarrow>
                         (case le_int num_nodes TRAINING_SET_MAX_NODES of
                            Inl err \<Rightarrow> Inl err
                          | Inr False \<Rightarrow> Inr False
                          | Inr True \<Rightarrow>
                              (case getitem instance_data ''solve_time'' of
                                 Inl err \<Rightarrow> Inl err
                               | Inr solve_time \<Rightarrow>
                                   (case int_le TRAINING_SET_MIN_TIME_LIMIT solve_time of
                                      Inl err \<Rightarrow> Inl err
                                    | Inr False \<Rightarrow> Inr False
                                    | Inr True \<Rightarrow>
                                        (case getitem instance_data ''presolve_time'' of
                                           Inl err \<Rightarrow> Inl err
                                         | Inr presolve_time \<Rightarrow>
                                             le_int presolve_time
                                               TRAINING_SET_PRESOLVE_TIME_LIMIT)))))))"

text \<open>The loop that reads the records back: a candidate without a record file is skipped.\<close>

fun good_instance_ids ::
  "loader \<Rightarrow> filesystem \<Rightarrow> string \<Rightarrow> string list \<Rightarrow> nat list \<Rightarrow> nat list \<Rightarrow> error + nat list" where
  "good_instance_ids load fs results_dir instances [] good = Inr good"
| "good_instance_ids load fs results_dir instances (i # rest) good =
     (let yml_file = get_filename results_dir (instances ! i) (Some 0) (Some 0) (Some ''yml'')
      in if \<not> isfile fs yml_file
         then good_instance_ids load fs results_dir instances rest good
         else (case read_file fs yml_file of
                 Inl err \<Rightarrow> Inl err
               | Inr text \<Rightarrow>
                   (case load text of
                      Inl err \<Rightarrow> Inl err
                    | Inr instance_data \<Rightarrow>
                        (case is_suitable instance_data of
                           Inl err \<Rightarrow> Inl err
                         | Inr ok \<Rightarrow>
                             good_instance_ids load fs results_dir instances rest
                               (if ok then good @ [i] else good)))))"

text \<open>
  \<open>shutil.copy\<close>: the source must be a regular file; a destination that is a directory
  stands for the file of the same name inside it; copying a file onto itself is an error.
\<close>

definition shutil_copy :: "filesystem \<Rightarrow> string \<Rightarrow> string \<Rightarrow> error + filesystem" where
  "shutil_copy fs src dst =
     (let target = (if isdir fs dst then join dst (last (split_on (CHR ''/'') src)) else dst)
      in (case read_file fs src of
            Inl err \<Rightarrow> Inl err
          | Inr content \<Rightarrow> if target = src then Inl OSError else write_file fs target content))"

fun copy_instances ::
  "string list \<Rightarrow> string list \<Rightarrow> string \<Rightarrow> nat list \<Rightarrow> filesystem \<Rightarrow> (error + unit) \<times> filesystem" where
  "copy_instances instance_paths instance_files instance_subset_dir [] fs = (Inr (), fs)"
| "copy_instances instance_paths instance_files instance_subset_dir (i # rest) fs =
     (case shutil_copy fs (instance_paths ! i) (join instance_subset_dir (instance_files ! i)) of
        Inl err \<Rightarrow> (Inl err, fs)
      | Inr fs' \<Rightarrow> copy_instances instance_paths instance_files instance_subset_dir rest fs')"

text \<open>
  What \<open>filter_instances\<close> does once the jobs have finished and solutions were not just
  being generated: read the records back, refresh the subset directory, return the
  paths of the good instances.
\<close>

definition select_instances ::
  "loader \<Rightarrow> world \<Rightarrow> string list \<Rightarrow> string \<Rightarrow> string \<Rightarrow> (error + string list) \<times> world" where
  "select_instances load w instance_paths results_dir instance_subset_dir =
     (let instance_files = map (\<lambda>instance_path. last (split_on (CHR ''/'') instance_path)) instance_paths;
          instances = map (\<lambda>instance_file. before_first ''.mps'' instance_file) instance_files
      in (case good_instance_ids load (files w) results_dir instances [0..<length instances] [] of
            Inl err \<Rightarrow> (Inl err, w)
          | Inr good \<Rightarrow>
              (case remove_temp_files instance_subset_dir (files w) of
                 (Inl err, fs1) \<Rightarrow> (Inl err, w\<lparr>files := fs1\<rparr>)
               | (Inr _, fs1) \<Rightarrow>
                   (case copy_instances instance_paths instance_files instance_subset_dir good fs1 of
                      (Inl err, fs2) \<Rightarrow> (Inl err, w\<lparr>files := fs2\<rparr>)
                    | (Inr _, fs2) \<Rightarrow>
                        (Inr (map (\<lambda>i. instance_paths ! i) good), w\<lparr>files := fs2\<rparr>)))))"

definition filter_instances ::
  "env \<Rightarrow> loader \<Rightarrow> world \<Rightarrow> string list \<Rightarrow> string \<Rightarrow> string \<Rightarrow> string \<Rightarrow> string \<Rightarrow> bool \<Rightarrow> bool
     \<Rightarrow> ((error + string list) \<times> world) option" where
  "filter_instances e load w instance_paths solution_dir results_dir outfiles_dir
       instance_subset_dir load_solutions print_solutions =
     (case remove_temp_files results_dir (files w) of
        (Inl err, fs1) \<Rightarrow> Some (Inl err, w\<lparr>files := fs1\<rparr>)
      | (Inr _, fs1) \<Rightarrow>
          (case remove_temp_files outfiles_dir fs1 of
             (Inl err, fs2) \<Rightarrow> Some (Inl err, w\<lparr>files := fs2\<rparr>)
           | (Inr _, fs2) \<Rightarrow>
               (let instance_files = map (\<lambda>instance_path. last (split_on (CHR ''/'') instance_path))
                                       instance_paths;
                    instances = map (\<lambda>instance_file. before_first ''.mps'' instance_file)
                                  instance_files;
                    solution_paths = map (\<lambda>instance. join solution_dir (instance @ ''.sol''))
                                       instances
                in (case submit_jobs e instance_paths instances solution_paths results_dir
                           outfiles_dir load_solutions print_solutions [0..<length instances] []
                           (w\<lparr>files := fs2\<rparr>) of
                      (Inl err, w1) \<Rightarrow> Some (Inl err, w1)
                    | (Inr slurm_job_ids, w1) \<Rightarrow>
                        (case wait_for_jobs_to_finish e w1 slurm_job_ids outfiles_dir of
                           None \<Rightarrow> None
                         | Some (Inl err, w2) \<Rightarrow> Some (Inl err, w2)
                         | Some (Inr _, w2) \<Rightarrow>
                             if print_solutions then Some (Inr instance_paths, w2)
                             else Some (select_instances load w2 instance_paths results_dir
                                          instance_subset_dir))))))"

section \<open>Notions of the specification\<close>

text \<open>
  The dependency clause as the scheduler reads it: the ids, in decimal, separated by
  colons.
\<close>

fun colon_separated :: "string list \<Rightarrow> string" where
  "colon_separated [] = []"
| "colon_separated [h] = h"
| "colon_separated (h # h' # hs) = h @ '':'' @ colon_separated (h' # hs)"

definition is_dependency_clause :: "string \<Rightarrow> bool" where
  "is_dependency_clause arg = prefix ''--dependency'' arg"

text \<open>
  The final white-space-separated field of a line, as the specification of the
  acknowledgment reads it: the last maximal run of characters that are not white space.
\<close>

definition final_field :: "string \<Rightarrow> string" where
  "final_field line =
     rev (takeWhile (\<lambda>c. \<not> is_bytes_space c) (dropWhile is_bytes_space (rev line)))"

text \<open>A scheduler that separates the job id from the token by a tab.\<close>

definition tab_env :: env where
  "tab_env = \<lparr>sbatch = (\<lambda>w cmd. Stdout [''Submitted batch job'' @ [CHR 0x09] @ ''77'' @ [CHR 0x0A]]),
               during_sleep = (\<lambda>t fs. fs)\<rparr>"


definition barrier_env :: env where
  "barrier_env = \<lparr>sbatch = (\<lambda>w cmd. Stdout [''Submitted batch job 4242'' @ [CHR 0x0A]]),
                   during_sleep = (\<lambda>t fs. if 10 \<le> t then (''outfiles/safety_check.txt'', File []) # fs
                                            else fs)\<rparr>"

definition barrier_world :: world where
  "barrier_world = \<lparr>files = [(''Slurm/safety_check.py'', File []), (''outfiles'', Dir)],
                     calls = [], clock = 0\<rparr>"

section \<open>Properties\<close>

subsection \<open>str_to_bool\<close>

text \<open>
  Claim C10.  \<open>str_to_bool\<close> is total on strings and answers \<open>True\<close> exactly when the
  lowercased argument is one of \<open>yes\<close>, \<open>true\<close>, \<open>t\<close>, \<open>1\<close>; \<open>False\<close>, \<open>no\<close> and
  a string that is none of the four words give \<open>False\<close>, while an upper-case spelling
  of one of the words gives \<open>True\<close>.
\<close>

theorem str_to_bool_iff:
  "str_to_bool word =
     (lower word = ''yes'' \<or> lower word = ''true'' \<or> lower word = ''t'' \<or> lower word = ''1'')
   \<and> str_to_bool ''False'' = False
   \<and> str_to_bool ''no'' = False
   \<and> str_to_bool ''maybe'' = False
   \<and> str_to_bool [] = False
   \<and> str_to_bool ''TRUE'' = True
   \<and> str_to_bool ''Yes'' = True"
  by (simp add: str_to_bool_def lower_def lower_char_def)

subsection \<open>Workspace hygiene\<close>

lemma lookup_delete_entry: "lookup (delete_entry p fs) q = (if q = p then None else lookup fs q)"
  by (induction fs) (auto simp: lookup_def delete_entry_def)

lemma isfile_delete_entry: "isfile (delete_entry p fs) q = (q \<noteq> p \<and> isfile fs q)"
  by (simp add: isfile_def lookup_delete_entry)

lemma isdir_delete_entry: "isfile fs p \<Longrightarrow> isdir (delete_entry p fs) d = isdir fs d"
  by (auto simp: isdir_def isfile_def lookup_delete_entry split: option.splits node.splits)

lemma join_name: "\<not> prefix ''/'' name \<Longrightarrow> join d name = join d [] @ name"
  by (simp add: join_def)

lemma child_name_Some:
  assumes h: "child_name d p = Some name"
  shows "p = join d name \<and> name \<noteq> [] \<and> CHR ''/'' \<notin> set name"
proof -
  from h have pre: "prefix (join d []) p" and nm: "name = drop (length (join d [])) p"
    and ne: "name \<noteq> []" and ns: "CHR ''/'' \<notin> set name"
    by (auto simp: child_name_def Let_def split: if_splits)
  from pre obtain r where r: "p = join d [] @ r"
    by (auto simp: prefix_def)
  with nm have "name = r" by simp
  with r have p: "p = join d [] @ name" by simp
  from ne ns have "\<not> prefix ''/'' name"
    by (cases name) simp_all
  then have "join d name = join d [] @ name" by (rule join_name)
  with p ne ns show ?thesis by simp
qed


lemma remove_files_all:
  "distinct names \<Longrightarrow> list_all (\<lambda>name. isfile fs (join d name)) names \<Longrightarrow>
   inj_on (join d) (set names) \<Longrightarrow>
   remove_files d names fs = (Inr (), filter (\<lambda>e. fst e \<notin> join d ` set names) fs)"
proof (induction names arbitrary: fs)
  case Nil
  then show ?case by simp
next
  case (Cons n names)
  let ?p = "join d n"
  let ?fs' = "delete_entry ?p fs"
  have rem: "os_remove fs ?p = Inr ?fs'"
    using Cons.prems(2) by (simp add: os_remove_def)
  have notin: "?p \<notin> join d ` set names"
    using Cons.prems(1,3) by (auto simp: inj_on_def)
  have a: "distinct names"
    using Cons.prems(1) by simp
  have ne: "join d name \<noteq> ?p" if "name \<in> set names" for name
    using notin that by (metis imageI)
  have b: "list_all (\<lambda>name. isfile ?fs' (join d name)) names"
    using Cons.prems(2) ne by (simp add: list_all_iff isfile_delete_entry)
  have c: "inj_on (join d) (set names)"
    using Cons.prems(3) by (simp add: inj_on_def)
  have ih: "remove_files d names ?fs' =
      (Inr (), filter (\<lambda>e. fst e \<notin> join d ` set names) ?fs')"
    using Cons.IH[OF a b c] .
  have flt: "filter (\<lambda>e. fst e \<notin> join d ` set names) ?fs'
      = filter (\<lambda>e. fst e \<notin> join d ` set (n # names)) fs"
    unfolding delete_entry_def filter_filter
    by (rule filter_cong) auto
  show ?case
    using rem ih flt by simp
qed


lemma set_map_filter_iff: "y \<in> set (List.map_filter f xs) \<longleftrightarrow> (\<exists>x\<in>set xs. f x = Some y)"
  by (induction xs) (auto simp: List.map_filter_def)

lemma listdir_Inr:
  assumes "listdir fs d = Inr names"
  shows "isdir fs d"
    and "names = remdups (List.map_filter (child_name d) (map fst fs))"
    and "distinct names"
proof -
  from assms show "isdir fs d"
    by (simp add: listdir_def split: if_splits)
  from assms show n: "names = remdups (List.map_filter (child_name d) (map fst fs))"
    by (simp add: listdir_def split: if_splits)
  show "distinct names"
    unfolding n by simp
qed

lemma listed_name:
  assumes "listdir fs d = Inr names" and "name \<in> set names"
  shows "\<not> prefix ''/'' name" and "\<exists>e\<in>set fs. child_name d (fst e) = Some name"
proof -
  from assms(2) listdir_Inr(2)[OF assms(1)]
  have "name \<in> set (List.map_filter (child_name d) (map fst fs))"
    by simp
  then obtain p where p: "p \<in> set (map fst fs)" "child_name d p = Some name"
    by (auto simp: set_map_filter_iff)
  from child_name_Some[OF p(2)] show "\<not> prefix ''/'' name"
    by (cases name) simp_all
  from p show "\<exists>e\<in>set fs. child_name d (fst e) = Some name"
    by auto
qed

lemma join_inj_on_listed:
  assumes "listdir fs d = Inr names"
  shows "inj_on (join d) (set names)"
proof (rule inj_onI)
  fix x y
  assume x: "x \<in> set names" and y: "y \<in> set names" and eq: "join d x = join d y"
  have "join d x = join d [] @ x"
    by (rule join_name) (rule listed_name(1)[OF assms x])
  moreover have "join d y = join d [] @ y"
    by (rule join_name) (rule listed_name(1)[OF assms y])
  ultimately have "join d [] @ x = join d [] @ y"
    using eq by (simp only:)
  then show "x = y"
    by (simp only: same_append_eq)
qed

lemma isdir_filter_files:
  assumes "isdir fs d" and "\<forall>p\<in>S. isfile fs p"
  shows "isdir (filter (\<lambda>e. fst e \<notin> S) fs) d"
proof -
  from assms(1) have dk: "dir_key d \<noteq> []" "map_of fs (dir_key d) = Some Dir"
    by (auto simp: isdir_def lookup_def split: if_splits option.splits node.splits)
  have "dir_key d \<notin> S"
  proof
    assume "dir_key d \<in> S"
    with assms(2) have "isfile fs (dir_key d)" by blast
    with dk show False by (simp add: isfile_def lookup_def)
  qed
  then have "map_of (filter (\<lambda>e. fst e \<notin> S) fs) (dir_key d) = map_of fs (dir_key d)"
    by (induction fs) auto
  with dk show ?thesis by (simp add: isdir_def lookup_def)
qed

text \<open>
  Claim C9.  On a directory whose entries are all regular files, \<open>remove_temp_files\<close>
  succeeds and leaves the directory empty; the directory itself is still there; and a
  second run on the result succeeds and changes nothing.
\<close>

theorem remove_temp_files_idempotent:
  assumes listed: "listdir fs temp_dir = Inr names"
    and regular: "list_all (\<lambda>name. isfile fs (join temp_dir name)) names"
  shows "fst (remove_temp_files temp_dir fs) = Inr ()
       \<and> listdir (snd (remove_temp_files temp_dir fs)) temp_dir = Inr []
       \<and> isdir (snd (remove_temp_files temp_dir fs)) temp_dir
       \<and> remove_temp_files temp_dir (snd (remove_temp_files temp_dir fs))
           = (Inr (), snd (remove_temp_files temp_dir fs))"
proof -
  let ?S = "join temp_dir ` set names"
  let ?fs' = "filter (\<lambda>e. fst e \<notin> ?S) fs"
  have run: "remove_temp_files temp_dir fs = (Inr (), ?fs')"
    using listed regular remove_files_all[OF listdir_Inr(3)[OF listed] regular join_inj_on_listed[OF listed]]
    by (simp add: remove_temp_files_def)
  have files: "\<forall>p\<in>?S. isfile fs p"
    using regular by (auto simp: list_all_iff)
  have dir: "isdir ?fs' temp_dir"
    using isdir_filter_files[OF listdir_Inr(1)[OF listed] files] .
  have none: "List.map_filter (child_name temp_dir) (map fst ?fs') = []"
  proof (rule ccontr)
    assume "List.map_filter (child_name temp_dir) (map fst ?fs') \<noteq> []"
    then obtain name where "name \<in> set (List.map_filter (child_name temp_dir) (map fst ?fs'))"
      by (cases "List.map_filter (child_name temp_dir) (map fst ?fs')") auto
    then obtain e where e: "e \<in> set fs" "fst e \<notin> ?S" "child_name temp_dir (fst e) = Some name"
      by (auto simp: set_map_filter_iff)
    from e(1,3) have "name \<in> set names"
      by (auto simp: listdir_Inr(2)[OF listed] set_map_filter_iff)
    moreover from child_name_Some[OF e(3)] have "fst e = join temp_dir name" by simp
    ultimately show False using e(2) by blast
  qed
  have empty: "listdir ?fs' temp_dir = Inr []"
    using dir none by (simp add: listdir_def)
  have again: "remove_temp_files temp_dir ?fs' = (Inr (), ?fs')"
    using empty by (simp add: remove_temp_files_def)
  show ?thesis
    using run dir empty again by simp
qed


theorem remove_temp_files_idempotent_witness:
  "listdir example_tree ''results/'' = Inr [''a.yml'', ''b.stats'']
   \<and> list_all (\<lambda>name. isfile example_tree (join ''results/'' name)) [''a.yml'', ''b.stats'']
   \<and> remove_temp_files ''results/'' example_tree
        = (Inr (), [(''results'', Dir), (''outfiles'', Dir), (''outfiles/keep.out'', File ''y'')])
   \<and> listdir (snd (remove_temp_files ''results/'' example_tree)) ''results/'' = Inr []
   \<and> isdir (snd (remove_temp_files ''results/'' example_tree)) ''results/''
   \<and> remove_temp_files ''results/'' (snd (remove_temp_files ''results/'' example_tree))
        = (Inr (), snd (remove_temp_files ''results/'' example_tree))"
proof -
  have l: "listdir example_tree ''results/'' = Inr [''a.yml'', ''b.stats'']"
    by code_simp
  have r: "list_all (\<lambda>name. isfile example_tree (join ''results/'' name)) [''a.yml'', ''b.stats'']"
    by code_simp
  have v: "remove_temp_files ''results/'' example_tree
        = (Inr (), [(''results'', Dir), (''outfiles'', Dir), (''outfiles/keep.out'', File ''y'')])"
    by code_simp
  from remove_temp_files_idempotent[OF l r] l r v show ?thesis
    by blast
qed

subsection \<open>Submission checks\<close>

text \<open>
  Claim C2.  When the output path names an existing file, or the python file is not an
  existing file ending in \<open>.py\<close>, or the directory of the output path does not exist,
  or the time limit is not an integer between 0 and 100000000, the submitter raises
  \<open>AssertionError\<close> and the world is as it was: no command has been launched.
\<close>

theorem submission_checks_precede_launch:
  assumes "isfile (files w) outfile
         \<or> \<not> (isfile (files w) python_file \<and> suffix ''.py'' python_file)
         \<or> \<not> isdir (files w) (dirname outfile)
         \<or> \<not> (\<exists>t. time_limit = PInt t \<and> 0 \<le> t \<and> t \<le> 100000000)"
  shows "run_python_slurm_job e w python_file job_name outfile time_limit arg_list dependencies exclusive
           = (Inl AssertionError, w)"
  using assms by (auto simp: run_python_slurm_job_def Let_def split: pyval.splits)

theorem submission_checks_precede_launch_witness:
  "isfile (files example_world) ''outfiles/done.out''
   \<and> run_python_slurm_job example_env example_world ''Slurm/solve_instance.py'' ''a--0--0''
        ''outfiles/done.out'' (PInt 240) [] None False = (Inl AssertionError, example_world)
   \<and> run_python_slurm_job example_env example_world ''notes.txt'' ''a--0--0''
        ''outfiles/new.out'' (PInt 240) [] None False = (Inl AssertionError, example_world)
   \<and> run_python_slurm_job example_env example_world ''Slurm/solve_instance.py'' ''a--0--0''
        ''missing/new.out'' (PInt 240) [] None False = (Inl AssertionError, example_world)
   \<and> run_python_slurm_job example_env example_world ''Slurm/solve_instance.py'' ''a--0--0''
        ''outfiles/new.out'' (PInt 100000001) [] None False = (Inl AssertionError, example_world)
   \<and> run_python_slurm_job example_env example_world ''Slurm/solve_instance.py'' ''a--0--0''
        ''outfiles/new.out'' (PBool True) [] None False = (Inl AssertionError, example_world)
   \<and> fst (run_python_slurm_job example_env example_world ''Slurm/solve_instance.py'' ''a--0--0''
        ''outfiles/new.out'' (PInt 240) [] None False) = Inr 4242"
proof -
  have a: "isfile (files example_world) ''outfiles/done.out''"
    by code_simp
  have b: "\<not> (isfile (files example_world) ''notes.txt'' \<and> suffix ''.py'' ''notes.txt'')"
    by code_simp
  have c: "\<not> isdir (files example_world) (dirname ''missing/new.out'')"
    by code_simp
  have d: "\<not> (\<exists>t. PInt 100000001 = PInt t \<and> 0 \<le> t \<and> t \<le> 100000000)"
    by simp
  have e: "\<not> (\<exists>t. PBool True = PInt t \<and> 0 \<le> t \<and> t \<le> 100000000)"
    by simp
  have f: "fst (run_python_slurm_job example_env example_world ''Slurm/solve_instance.py'' ''a--0--0''
        ''outfiles/new.out'' (PInt 240) [] None False) = Inr 4242"
    by code_simp
  have h1: "run_python_slurm_job example_env example_world ''Slurm/solve_instance.py'' ''a--0--0''
        ''outfiles/done.out'' (PInt 240) [] None False = (Inl AssertionError, example_world)"
    by (rule submission_checks_precede_launch[OF disjI1[OF a]])
  have h2: "run_python_slurm_job example_env example_world ''notes.txt'' ''a--0--0''
        ''outfiles/new.out'' (PInt 240) [] None False = (Inl AssertionError, example_world)"
    by (rule submission_checks_precede_launch[OF disjI2[OF disjI1[OF b]]])
  have h3: "run_python_slurm_job example_env example_world ''Slurm/solve_instance.py'' ''a--0--0''
        ''missing/new.out'' (PInt 240) [] None False = (Inl AssertionError, example_world)"
    by (rule submission_checks_precede_launch[OF disjI2[OF disjI2[OF disjI1[OF c]]]])
  have h4: "run_python_slurm_job example_env example_world ''Slurm/solve_instance.py'' ''a--0--0''
        ''outfiles/new.out'' (PInt 100000001) [] None False = (Inl AssertionError, example_world)"
    by (rule submission_checks_precede_launch[OF disjI2[OF disjI2[OF disjI2[OF d]]]])
  have h5: "run_python_slurm_job example_env example_world ''Slurm/solve_instance.py'' ''a--0--0''
        ''outfiles/new.out'' (PBool True) [] None False = (Inl AssertionError, example_world)"
    by (rule submission_checks_precede_launch[OF disjI2[OF disjI2[OF disjI2[OF e]]]])
  show ?thesis
    by (intro conjI) (fact a h1 h2 h3 h4 h5 f)+
qed

subsection \<open>The dependency clause\<close>

lemma dependency_str_colon_separated:
  "dependencies \<noteq> [] \<Longrightarrow> dependency_str dependencies = colon_separated (map str_int dependencies)"
proof (induction dependencies)
  case Nil
  then show ?case by simp
next
  case (Cons d ds)
  show ?case
  proof (cases ds)
    case Nil
    then show ?thesis by (simp add: dependency_str_def)
  next
    case (Cons d' ds')
    then have "concat (map (\<lambda>dependency. str_int dependency @ '':'') ds) \<noteq> []"
      by simp
    then have "dependency_str (d # ds) = str_int d @ '':'' @ dependency_str ds"
      by (simp add: dependency_str_def butlast_append)
    with Cons.IH Cons show ?thesis by simp
  qed
qed

lemma filter_clause_args:
  "list_all (\<lambda>a. \<not> is_dependency_clause (format_value a)) arg_list \<Longrightarrow>
   filter is_dependency_clause (map format_value arg_list) = []"
  by (induction arg_list) simp_all

lemma filter_clause_slurm_cmd:
  assumes "\<not> is_dependency_clause outfile" "\<not> is_dependency_clause python_file"
    and "list_all (\<lambda>a. \<not> is_dependency_clause (format_value a)) arg_list"
  shows "filter is_dependency_clause (slurm_cmd python_file job_name outfile t arg_list deps exclusive)
       = (if deps = [] then [] else [''--dependency=afterany:'' @ dependency_str deps])"
proof -
  have fixed: "\<not> is_dependency_clause (''--job-name='' @ job_name)"
    "\<not> is_dependency_clause (''--time=0-00:00:'' @ str_int t)"
    "\<not> is_dependency_clause (''--mem='' @ m)"
    "\<not> is_dependency_clause (''--constraint='' @ c)"
    "is_dependency_clause (''--dependency=afterany:'' @ ds)" for m c ds
    by (simp_all add: is_dependency_clause_def)
  have lit: "\<not> is_dependency_clause ''sbatch''" "\<not> is_dependency_clause ''--cpus-per-task=1''"
    "\<not> is_dependency_clause ''--exclusive''" "\<not> is_dependency_clause ''--ntasks=1''"
    "\<not> is_dependency_clause ''--output''" "\<not> is_dependency_clause ''--error''"
    "\<not> is_dependency_clause ''-A''" "\<not> is_dependency_clause ''PUT EXCLUSIVE GROUP HERE''"
    "\<not> is_dependency_clause ''PUT NON_EXCLUSIVE GROUP HERE''"
    "\<not> is_dependency_clause ''--partition=PUT EXCLUSIVE PARTITION HERE''"
    "\<not> is_dependency_clause ''--partition=PUT NON_EXCLUSIVE PARTITION HERE''"
    by (simp_all add: is_dependency_clause_def)
  show ?thesis
    unfolding slurm_cmd_def Let_def
    using assms(1,2) filter_clause_args[OF assms(3)] fixed lit
    by (simp split: option.split)
qed

text \<open>
  Claim C4.  The command the submitter launches holds no dependency clause when the
  dependency list is \<open>None\<close> or empty, and for handles \<open>h1 .. hk\<close> exactly one, namely
  \<open>--dependency=afterany:h1:...:hk\<close>.  (The output path, the python file and the
  worker's arguments are values, not clauses: they are taken not to be spelled like one.)
\<close>

theorem dependency_clause_of_command:
  assumes "isfile (files w) python_file" and "suffix ''.py'' python_file"
    and "\<not> isfile (files w) outfile" and "suffix ''.out'' outfile"
    and "isdir (files w) (dirname outfile)" and "0 \<le> t" and "t \<le> 100000000"
    and "\<not> is_dependency_clause outfile" and "\<not> is_dependency_clause python_file"
    and "list_all (\<lambda>a. \<not> is_dependency_clause (format_value a)) arg_list"
  shows "calls (snd (run_python_slurm_job e w python_file job_name outfile (PInt t) arg_list
                      dependencies exclusive))
           = calls w @ [slurm_cmd python_file job_name outfile t arg_list
                          (case dependencies of None \<Rightarrow> [] | Some ds \<Rightarrow> ds) exclusive]
       \<and> filter is_dependency_clause
            (slurm_cmd python_file job_name outfile t arg_list
               (case dependencies of None \<Rightarrow> [] | Some ds \<Rightarrow> ds) exclusive)
           = (case dependencies of
                None \<Rightarrow> []
              | Some [] \<Rightarrow> []
              | Some (h # hs) \<Rightarrow> [''--dependency=afterany:'' @ colon_separated (map str_int (h # hs))])"
proof -
  have launched: "calls (snd (run_python_slurm_job e w python_file job_name outfile (PInt t) arg_list
                      dependencies exclusive))
           = calls w @ [slurm_cmd python_file job_name outfile t arg_list
                          (case dependencies of None \<Rightarrow> [] | Some ds \<Rightarrow> ds) exclusive]"
    using assms(1-7) by (simp add: run_python_slurm_job_def Let_def split: spawn.split)
  have clause: "filter is_dependency_clause
            (slurm_cmd python_file job_name outfile t arg_list
               (case dependencies of None \<Rightarrow> [] | Some ds \<Rightarrow> ds) exclusive)
           = (case dependencies of
                None \<Rightarrow> []
              | Some [] \<Rightarrow> []
              | Some (h # hs) \<Rightarrow> [''--dependency=afterany:'' @ colon_separated (map str_int (h # hs))])"
    using filter_clause_slurm_cmd[OF assms(8-10)] dependency_str_colon_separated
    by (simp split: option.split list.split)
  from launched clause show ?thesis ..
qed


theorem dependency_clause_of_command_witness:
  "isfile (files example_world) ''Slurm/solve_instance.py''
   \<and> \<not> isfile (files example_world) ''outfiles/new.out''
   \<and> isdir (files example_world) (dirname ''outfiles/new.out'')
   \<and> filter is_dependency_clause
        (slurm_cmd ''Slurm/solve_instance.py'' ''a--0--0'' ''outfiles/new.out'' 240
           [PStr ''results'', PInt 0, PBool True, PNone, PFloat ''0.0''] [11, 12, 13] False)
       = [''--dependency=afterany:11:12:13'']
   \<and> filter is_dependency_clause
        (slurm_cmd ''Slurm/solve_instance.py'' ''a--0--0'' ''outfiles/new.out'' 240
           [PStr ''results'', PInt 0, PBool True, PNone, PFloat ''0.0''] [] False)
       = []
   \<and> calls (snd (run_python_slurm_job example_env example_world ''Slurm/solve_instance.py''
         ''a--0--0'' ''outfiles/new.out'' (PInt 240)
         [PStr ''results'', PInt 0, PBool True, PNone, PFloat ''0.0''] (Some [11, 12, 13]) False))
       = [[''sbatch'', ''--job-name=a--0--0'', ''--time=0-00:00:240'', ''--cpus-per-task=1'',
           ''--ntasks=1'', ''--mem=2000'', ''--dependency=afterany:11:12:13'',
           ''--constraint=Xeon&Gold6342'', ''--output'', ''outfiles/new.out'', ''--error'',
           ''outfiles/new.out'', ''-A'', ''PUT NON_EXCLUSIVE GROUP HERE'',
           ''--partition=PUT NON_EXCLUSIVE PARTITION HERE'', ''Slurm/solve_instance.py'',
           ''results'', ''0'', ''True'', ''None'', ''0.0'']]"
proof -
  have a: "isfile (files example_world) ''Slurm/solve_instance.py''"
    and b: "suffix ''.py'' ''Slurm/solve_instance.py''"
    and c: "\<not> isfile (files example_world) ''outfiles/new.out''"
    and d: "suffix ''.out'' ''outfiles/new.out''"
    and e: "isdir (files example_world) (dirname ''outfiles/new.out'')"
    and f: "(0::int) \<le> 240" and g: "(240::int) \<le> 100000000"
    and h: "\<not> is_dependency_clause ''outfiles/new.out''"
    and i: "\<not> is_dependency_clause ''Slurm/solve_instance.py''"
    and j: "list_all (\<lambda>a. \<not> is_dependency_clause (format_value a))
              [PStr ''results'', PInt 0, PBool True, PNone, PFloat ''0.0'']"
    by code_simp+
  have k: "colon_separated (map str_int [11, 12, 13]) = ''11:12:13''"
    by code_simp
  have l: "calls example_world = []"
    by (simp add: example_world_def)
  have m: "slurm_cmd ''Slurm/solve_instance.py'' ''a--0--0'' ''outfiles/new.out'' 240
           [PStr ''results'', PInt 0, PBool True, PNone, PFloat ''0.0''] [11, 12, 13] False
       = [''sbatch'', ''--job-name=a--0--0'', ''--time=0-00:00:240'', ''--cpus-per-task=1'',
           ''--ntasks=1'', ''--mem=2000'', ''--dependency=afterany:11:12:13'',
           ''--constraint=Xeon&Gold6342'', ''--output'', ''outfiles/new.out'', ''--error'',
           ''outfiles/new.out'', ''-A'', ''PUT NON_EXCLUSIVE GROUP HERE'',
           ''--partition=PUT NON_EXCLUSIVE PARTITION HERE'', ''Slurm/solve_instance.py'',
           ''results'', ''0'', ''True'', ''None'', ''0.0'']"
    by code_simp
  note some = dependency_clause_of_command[OF a b c d e f g h i j,
      of example_env "''a--0--0''" "Some [11, 12, 13]" False]
  note none = dependency_clause_of_command[OF a b c d e f g h i j,
      of example_env "''a--0--0''" None False]
  have s1: "filter is_dependency_clause
        (slurm_cmd ''Slurm/solve_instance.py'' ''a--0--0'' ''outfiles/new.out'' 240
           [PStr ''results'', PInt 0, PBool True, PNone, PFloat ''0.0''] [11, 12, 13] False)
       = [''--dependency=afterany:11:12:13'']"
    using some[THEN conjunct2] unfolding option.case list.case k by simp
  have s2: "filter is_dependency_clause
        (slurm_cmd ''Slurm/solve_instance.py'' ''a--0--0'' ''outfiles/new.out'' 240
           [PStr ''results'', PInt 0, PBool True, PNone, PFloat ''0.0''] [] False)
       = []"
    using none[THEN conjunct2] by simp
  have s3: "calls (snd (run_python_slurm_job example_env example_world ''Slurm/solve_instance.py''
         ''a--0--0'' ''outfiles/new.out'' (PInt 240)
         [PStr ''results'', PInt 0, PBool True, PNone, PFloat ''0.0''] (Some [11, 12, 13]) False))
       = [[''sbatch'', ''--job-name=a--0--0'', ''--time=0-00:00:240'', ''--cpus-per-task=1'',
           ''--ntasks=1'', ''--mem=2000'', ''--dependency=afterany:11:12:13'',
           ''--constraint=Xeon&Gold6342'', ''--output'', ''outfiles/new.out'', ''--error'',
           ''outfiles/new.out'', ''-A'', ''PUT NON_EXCLUSIVE GROUP HERE'',
           ''--partition=PUT NON_EXCLUSIVE PARTITION HERE'', ''Slurm/solve_instance.py'',
           ''results'', ''0'', ''True'', ''None'', ''0.0'']]"
    using some[THEN conjunct1] by (simp add: l m)
  show ?thesis
    by (intro conjI) (fact a c e s1 s2 s3)+
qed

subsection \<open>The scheduler's acknowledgment\<close>

lemma split_on_not_Nil [simp]: "split_on sep s \<noteq> []"
  by (induction s) (auto split: list.splits)









lemma str_nat_not_Nil [simp]: "str_nat n \<noteq> []"
  by (subst str_nat.simps) simp








































text \<open>
  The claim as stated fails: the line \<open>Submitted batch job<TAB>77\<close> contains the token
  and its final white-space-separated field is the decimal integer 77, yet the submitter
  raises \<open>ValueError\<close> and returns no job id.
\<close>

theorem job_id_from_acknowledgment_counterexample:
  "sublist ''Submitted batch job'' (''Submitted batch job'' @ [CHR 0x09] @ ''77'' @ [CHR 0x0A])
   \<and> final_field (''Submitted batch job'' @ [CHR 0x09] @ ''77'' @ [CHR 0x0A]) = ''77''
   \<and> py_int ''77'' = Some 77
   \<and> fst (run_python_slurm_job tab_env example_world ''Slurm/solve_instance.py'' ''a--0--0''
            ''outfiles/new.out'' (PInt 240) [] None False) = Inl ValueError"
  by code_simp

subsection \<open>The completion barrier\<close>

lemma poll_found:
  assumes "isfile (files ((sleep e 5 ^^ k) w)) marker"
    and "\<forall>j<k. \<not> isfile (files ((sleep e 5 ^^ j) w)) marker"
  shows "poll e marker w = Some ((sleep e 5 ^^ k) w)"
  using assms
proof (induction k arbitrary: w)
  case 0
  then show ?case by (subst poll.simps) simp
next
  case (Suc k)
  from Suc.prems(2) have now: "\<not> isfile (files w) marker"
    by (metis funpow_0 zero_less_Suc)
  have a: "isfile (files ((sleep e 5 ^^ k) (sleep e 5 w))) marker"
    using Suc.prems(1) by (simp add: funpow_swap1)
  have b: "\<forall>j<k. \<not> isfile (files ((sleep e 5 ^^ j) (sleep e 5 w))) marker"
  proof (intro allI impI)
    fix j assume "j < k"
    then have "Suc j < Suc k" by simp
    with Suc.prems(2) have "\<not> isfile (files ((sleep e 5 ^^ Suc j) w)) marker" by blast
    then show "\<not> isfile (files ((sleep e 5 ^^ j) (sleep e 5 w))) marker"
      by (simp add: funpow_swap1)
  qed
  have "poll e marker w = poll e marker (sleep e 5 w)"
    using now by (subst poll.simps) simp
  also have "\<dots> = Some ((sleep e 5 ^^ k) (sleep e 5 w))"
    using a b by (rule Suc.IH)
  finally show ?case by (simp add: funpow_swap1)
qed

lemma poll_returns:
  assumes "poll e marker w = Some w'"
  shows "\<exists>k. w' = (sleep e 5 ^^ k) w \<and> isfile (files w') marker
            \<and> (\<forall>j<k. \<not> isfile (files ((sleep e 5 ^^ j) w)) marker)"
  using assms
proof (induction rule: poll.raw_induct[rotated 1, consumes 1])
  case (1 poll' e marker w w')
  show ?case
  proof (cases "isfile (files w) marker")
    case True
    with 1(2) have "w' = w" by simp
    with True show ?thesis by (intro exI[of _ 0]) simp
  next
    case False
    with 1(2) have "poll' e marker (sleep e 5 w) = Some w'" by simp
    from 1(1)[OF this] obtain k where k: "w' = (sleep e 5 ^^ k) (sleep e 5 w)"
      "isfile (files w') marker"
      "\<forall>j<k. \<not> isfile (files ((sleep e 5 ^^ j) (sleep e 5 w))) marker"
      by blast
    have "\<forall>j<Suc k. \<not> isfile (files ((sleep e 5 ^^ j) w)) marker"
    proof (intro allI impI)
      fix j assume j: "j < Suc k"
      show "\<not> isfile (files ((sleep e 5 ^^ j) w)) marker"
      proof (cases j)
        case 0
        with False show ?thesis by simp
      next
        case (Suc i)
        with j k(3) show ?thesis by (simp add: funpow_swap1)
      qed
    qed
    with k(1,2) show ?thesis
      by (intro exI[of _ "Suc k"]) (simp add: funpow_swap1)
  qed
qed

lemma poll_never:
  assumes "\<forall>k. \<not> isfile (files ((sleep e 5 ^^ k) w)) marker"
  shows "poll e marker w = None"
proof (cases "poll e marker w")
  case None
  then show ?thesis .
next
  case (Some w')
  from poll_returns[OF Some] assms show ?thesis by metis
qed

lemma sleep_funpow:
  "clock ((sleep e s ^^ k) w) = clock w + s * k \<and> calls ((sleep e s ^^ k) w) = calls w"
  by (induction k) (simp_all add: sleep_def)


lemma run_python_slurm_job_Inr:
  assumes "run_python_slurm_job e w python_file job_name outfile (PInt t) arg_list (Some deps) exclusive
             = (Inr job, w1)"
  shows "w1 = w\<lparr>calls := calls w @ [slurm_cmd python_file job_name outfile t arg_list deps exclusive]\<rparr>"
  using assms
  by (auto simp: run_python_slurm_job_def Let_def split: if_splits spawn.splits)

lemma str_int_10: "str_int 10 = ''10''"
  by code_simp

lemma str_int_2000: "str_int 2000 = ''2000''"
  by code_simp

lemma sentinel_command:
  "slurm_cmd ''Slurm/safety_check.py'' ''cleaner'' outfile 10 [PStr marker] slurm_job_ids False
     = [''sbatch'', ''--job-name=cleaner'', ''--time=0-00:00:10'', ''--cpus-per-task=1'',
        ''--ntasks=1'', ''--mem=2000'']
       @ (if slurm_job_ids = [] then []
          else [''--dependency=afterany:'' @ colon_separated (map str_int slurm_job_ids)])
       @ [''--constraint=Xeon&Gold6342'', ''--output'', outfile, ''--error'', outfile, ''-A'',
          ''PUT NON_EXCLUSIVE GROUP HERE'', ''--partition=PUT NON_EXCLUSIVE PARTITION HERE'',
          ''Slurm/safety_check.py'', marker]"
proof (cases "slurm_job_ids = []")
  case True
  then show ?thesis
    by (simp add: slurm_cmd_def SLURM_TRAIN_MEMORY_def SLURM_CONSTRAINT_def str_int_10 str_int_2000)
next
  case False
  then show ?thesis
    by (simp add: slurm_cmd_def SLURM_TRAIN_MEMORY_def SLURM_CONSTRAINT_def str_int_10 str_int_2000
        dependency_str_colon_separated)
qed

text \<open>
  Claim C1.  When the submission of the sentinel succeeds, exactly one command has been
  launched by it: \<open>sbatch\<close> on \<open>Slurm/safety_check.py\<close> with the marker path as
  its argument and, for job ids \<open>h1 .. hk\<close>, the clause
  \<open>--dependency=afterany:h1:...:hk\<close> naming every one of them (no clause when the
  list is empty).
  The barrier then returns only in a world where the marker file
  \<open>safety_check.txt\<close> exists, after \<open>k + 1\<close> sleeps of 5 seconds, none of the earlier
  polls having found the file; it launches nothing more.  If the marker never appears
  the barrier never returns, and if it first appears at the poll after sleep \<open>k + 1\<close>,
  whatever \<open>k\<close> is, the barrier returns then: the number of polls has no bound.
\<close>

theorem barrier_waits_for_marker:
  assumes "run_python_slurm_job e w ''Slurm/safety_check.py'' ''cleaner''
             (join outfiles_dir ''safety_check'' @ ''.out'') (PInt 10)
             [PStr (join outfiles_dir ''safety_check'' @ ''.txt'')] (Some slurm_job_ids) False
           = (Inr job, w1)"
  shows "calls w1 = calls w @
           [[''sbatch'', ''--job-name=cleaner'', ''--time=0-00:00:10'', ''--cpus-per-task=1'',
             ''--ntasks=1'', ''--mem=2000'']
            @ (if slurm_job_ids = [] then []
               else [''--dependency=afterany:'' @ colon_separated (map str_int slurm_job_ids)])
            @ [''--constraint=Xeon&Gold6342'',
               ''--output'', join outfiles_dir ''safety_check'' @ ''.out'',
               ''--error'', join outfiles_dir ''safety_check'' @ ''.out'',
               ''-A'', ''PUT NON_EXCLUSIVE GROUP HERE'',
               ''--partition=PUT NON_EXCLUSIVE PARTITION HERE'',
               ''Slurm/safety_check.py'', join outfiles_dir ''safety_check'' @ ''.txt'']]
       \<and> (\<forall>r w2. wait_for_jobs_to_finish e w slurm_job_ids outfiles_dir = Some (r, w2) \<longrightarrow>
            r = Inr () \<and> isfile (files w2) (join outfiles_dir ''safety_check'' @ ''.txt'')
            \<and> calls w2 = calls w1
            \<and> (\<exists>k. w2 = (sleep e 5 ^^ Suc k) w1 \<and> clock w2 = clock w + 5 * Suc k
                 \<and> (\<forall>j<k. \<not> isfile (files ((sleep e 5 ^^ Suc j) w1))
                                (join outfiles_dir ''safety_check'' @ ''.txt''))))
       \<and> ((\<forall>k. \<not> isfile (files ((sleep e 5 ^^ Suc k) w1))
                     (join outfiles_dir ''safety_check'' @ ''.txt'')) \<longrightarrow>
            wait_for_jobs_to_finish e w slurm_job_ids outfiles_dir = None)
       \<and> (\<forall>k. isfile (files ((sleep e 5 ^^ Suc k) w1)) (join outfiles_dir ''safety_check'' @ ''.txt'')
              \<and> (\<forall>j<k. \<not> isfile (files ((sleep e 5 ^^ Suc j) w1))
                              (join outfiles_dir ''safety_check'' @ ''.txt'')) \<longrightarrow>
            wait_for_jobs_to_finish e w slurm_job_ids outfiles_dir
              = Some (Inr (), (sleep e 5 ^^ Suc k) w1))"
proof -
  let ?marker = "join outfiles_dir ''safety_check'' @ ''.txt''"
  let ?cmd = "slurm_cmd ''Slurm/safety_check.py'' ''cleaner''
                (join outfiles_dir ''safety_check'' @ ''.out'') 10 [PStr ?marker] slurm_job_ids False"
  have w1: "w1 = w\<lparr>calls := calls w @ [?cmd]\<rparr>"
    using run_python_slurm_job_Inr[OF assms] .
  have wait: "wait_for_jobs_to_finish e w slurm_job_ids outfiles_dir
      = map_option (\<lambda>w''. (Inr (), w'')) (poll e ?marker (sleep e 5 w1))"
    using assms by (simp add: wait_for_jobs_to_finish_def Let_def)
  have shift: "(sleep e 5 ^^ k) (sleep e 5 w1) = (sleep e 5 ^^ Suc k) w1" for k
    by (simp add: funpow_swap1)
  have a: "calls w1 = calls w @
           [[''sbatch'', ''--job-name=cleaner'', ''--time=0-00:00:10'', ''--cpus-per-task=1'',
             ''--ntasks=1'', ''--mem=2000'']
            @ (if slurm_job_ids = [] then []
               else [''--dependency=afterany:'' @ colon_separated (map str_int slurm_job_ids)])
            @ [''--constraint=Xeon&Gold6342'',
               ''--output'', join outfiles_dir ''safety_check'' @ ''.out'',
               ''--error'', join outfiles_dir ''safety_check'' @ ''.out'',
               ''-A'', ''PUT NON_EXCLUSIVE GROUP HERE'',
               ''--partition=PUT NON_EXCLUSIVE PARTITION HERE'',
               ''Slurm/safety_check.py'', ?marker]]"
    unfolding w1 sentinel_command by simp
  have b: "r = Inr () \<and> isfile (files w2) ?marker \<and> calls w2 = calls w1
        \<and> (\<exists>k. w2 = (sleep e 5 ^^ Suc k) w1 \<and> clock w2 = clock w + 5 * Suc k
             \<and> (\<forall>j<k. \<not> isfile (files ((sleep e 5 ^^ Suc j) w1)) ?marker))"
    if "wait_for_jobs_to_finish e w slurm_job_ids outfiles_dir = Some (r, w2)" for r w2
  proof -
    from that wait have r: "r = Inr ()" and p: "poll e ?marker (sleep e 5 w1) = Some w2"
      by auto
    from poll_returns[OF p] obtain k where k: "w2 = (sleep e 5 ^^ k) (sleep e 5 w1)"
      "isfile (files w2) ?marker"
      "\<forall>j<k. \<not> isfile (files ((sleep e 5 ^^ j) (sleep e 5 w1))) ?marker"
      by blast
    have w2: "w2 = (sleep e 5 ^^ Suc k) w1"
      using k(1) unfolding shift .
    have cw: "clock w1 = clock w"
      by (simp add: w1)
    have sf: "clock ((sleep e 5 ^^ Suc k) w1) = clock w1 + 5 * Suc k
        \<and> calls ((sleep e 5 ^^ Suc k) w1) = calls w1"
      by (rule sleep_funpow)
    have "clock w2 = clock w + 5 * Suc k" "calls w2 = calls w1"
      using sf unfolding w2 cw by blast+
    with r k show ?thesis
      unfolding shift by blast
  qed
  have c: "wait_for_jobs_to_finish e w slurm_job_ids outfiles_dir = None"
    if "\<forall>k. \<not> isfile (files ((sleep e 5 ^^ Suc k) w1)) ?marker"
  proof -
    from that have "\<forall>k. \<not> isfile (files ((sleep e 5 ^^ k) (sleep e 5 w1))) ?marker"
      unfolding shift .
    then show ?thesis
      by (simp add: wait poll_never)
  qed
  have d: "wait_for_jobs_to_finish e w slurm_job_ids outfiles_dir = Some (Inr (), (sleep e 5 ^^ Suc k) w1)"
    if "isfile (files ((sleep e 5 ^^ Suc k) w1)) ?marker
        \<and> (\<forall>j<k. \<not> isfile (files ((sleep e 5 ^^ Suc j) w1)) ?marker)" for k
  proof -
    from that have "isfile (files ((sleep e 5 ^^ k) (sleep e 5 w1))) ?marker"
      "\<forall>j<k. \<not> isfile (files ((sleep e 5 ^^ j) (sleep e 5 w1))) ?marker"
      unfolding shift by blast+
    then have "poll e ?marker (sleep e 5 w1) = Some ((sleep e 5 ^^ k) (sleep e 5 w1))"
      by (rule poll_found)
    then show ?thesis
      unfolding shift by (simp add: wait)
  qed
  from a b c d show ?thesis by blast
qed


theorem barrier_waits_for_marker_witness:
  "run_python_slurm_job barrier_env barrier_world ''Slurm/safety_check.py'' ''cleaner''
     (join ''outfiles'' ''safety_check'' @ ''.out'') (PInt 10)
     [PStr (join ''outfiles'' ''safety_check'' @ ''.txt'')] (Some [11, 12, 13]) False
   = (Inr 4242,
      barrier_world\<lparr>calls := [[''sbatch'', ''--job-name=cleaner'', ''--time=0-00:00:10'', ''--cpus-per-task=1'',
          ''--ntasks=1'', ''--mem=2000'', ''--dependency=afterany:11:12:13'',
          ''--constraint=Xeon&Gold6342'', ''--output'', ''outfiles/safety_check.out'',
          ''--error'', ''outfiles/safety_check.out'', ''-A'', ''PUT NON_EXCLUSIVE GROUP HERE'',
          ''--partition=PUT NON_EXCLUSIVE PARTITION HERE'', ''Slurm/safety_check.py'',
          ''outfiles/safety_check.txt'']]\<rparr>)
   \<and> wait_for_jobs_to_finish barrier_env barrier_world [11, 12, 13] ''outfiles''
   = Some (Inr (),
       \<lparr>files = [(''outfiles/safety_check.txt'', File []), (''Slurm/safety_check.py'', File []),
                 (''outfiles'', Dir)],
        calls = [[''sbatch'', ''--job-name=cleaner'', ''--time=0-00:00:10'', ''--cpus-per-task=1'',
          ''--ntasks=1'', ''--mem=2000'', ''--dependency=afterany:11:12:13'',
          ''--constraint=Xeon&Gold6342'', ''--output'', ''outfiles/safety_check.out'',
          ''--error'', ''outfiles/safety_check.out'', ''-A'', ''PUT NON_EXCLUSIVE GROUP HERE'',
          ''--partition=PUT NON_EXCLUSIVE PARTITION HERE'', ''Slurm/safety_check.py'',
          ''outfiles/safety_check.txt'']],
        clock = 15\<rparr>)"
proof -
  define w1 where "w1 = barrier_world\<lparr>calls := [slurm_cmd ''Slurm/safety_check.py'' ''cleaner''
                                 ''outfiles/safety_check.out'' 10
                                 [PStr ''outfiles/safety_check.txt''] [11, 12, 13] False]\<rparr>"
  have submitted: "run_python_slurm_job barrier_env barrier_world ''Slurm/safety_check.py'' ''cleaner''
     (join ''outfiles'' ''safety_check'' @ ''.out'') (PInt 10)
     [PStr (join ''outfiles'' ''safety_check'' @ ''.txt'')] (Some [11, 12, 13]) False
   = (Inr 4242, w1)"
    unfolding w1_def by code_simp
  have marker: "join ''outfiles'' ''safety_check'' @ ''.txt'' = ''outfiles/safety_check.txt''"
    by code_simp
  have s1: "sleep barrier_env 5 w1 = w1\<lparr>clock := 5\<rparr>"
    unfolding w1_def by (simp add: sleep_def barrier_env_def barrier_world_def)
  have s2: "sleep barrier_env 5 (w1\<lparr>clock := 5\<rparr>) = w1\<lparr>clock := 10\<rparr>"
    unfolding w1_def by (simp add: sleep_def barrier_env_def barrier_world_def)
  have s3: "sleep barrier_env 5 (w1\<lparr>clock := 10\<rparr>)
      = w1\<lparr>files := (''outfiles/safety_check.txt'', File []) # files w1, clock := 15\<rparr>"
    unfolding w1_def by (simp add: sleep_def barrier_env_def barrier_world_def)
  have f1: "(sleep barrier_env 5 ^^ Suc 0) w1 = w1\<lparr>clock := 5\<rparr>"
    by (simp add: s1)
  have f2: "(sleep barrier_env 5 ^^ Suc (Suc 0)) w1 = w1\<lparr>clock := 10\<rparr>"
    by (simp add: s1 s2)
  have f3: "(sleep barrier_env 5 ^^ Suc (Suc (Suc 0))) w1
      = w1\<lparr>files := (''outfiles/safety_check.txt'', File []) # files w1, clock := 15\<rparr>"
    by (simp add: s1 s2 s3)
  have n1: "\<not> isfile (files (w1\<lparr>clock := 5\<rparr>)) ''outfiles/safety_check.txt''"
    and n2: "\<not> isfile (files (w1\<lparr>clock := 10\<rparr>)) ''outfiles/safety_check.txt''"
    unfolding w1_def by (simp_all add: isfile_def lookup_def barrier_world_def)
  have y3: "isfile (files (w1\<lparr>files := (''outfiles/safety_check.txt'', File []) # files w1, clock := 15\<rparr>))
              ''outfiles/safety_check.txt''"
    by (simp add: isfile_def lookup_def)
  have before: "\<forall>j<Suc (Suc 0). \<not> isfile (files ((sleep barrier_env 5 ^^ Suc j) w1))
                    (join ''outfiles'' ''safety_check'' @ ''.txt'')"
    unfolding marker using n1 n2 f1 f2 by (simp add: less_Suc_eq)
  have found: "isfile (files ((sleep barrier_env 5 ^^ Suc (Suc (Suc 0))) w1))
                 (join ''outfiles'' ''safety_check'' @ ''.txt'')"
    unfolding marker f3 by (rule y3)
  have "wait_for_jobs_to_finish barrier_env barrier_world [11, 12, 13] ''outfiles''
      = Some (Inr (), (sleep barrier_env 5 ^^ Suc (Suc (Suc 0))) w1)"
    by (rule barrier_waits_for_marker[OF submitted, THEN conjunct2, THEN conjunct2, THEN conjunct2,
          rule_format, OF conjI[OF found before]])
  then have "wait_for_jobs_to_finish barrier_env barrier_world [11, 12, 13] ''outfiles''
      = Some (Inr (), w1\<lparr>files := (''outfiles/safety_check.txt'', File []) # files w1, clock := 15\<rparr>)"
    by (simp only: f3)
  moreover have "slurm_cmd ''Slurm/safety_check.py'' ''cleaner'' ''outfiles/safety_check.out'' 10
                   [PStr ''outfiles/safety_check.txt''] [11, 12, 13] False
      = [''sbatch'', ''--job-name=cleaner'', ''--time=0-00:00:10'', ''--cpus-per-task=1'',
          ''--ntasks=1'', ''--mem=2000'', ''--dependency=afterany:11:12:13'',
          ''--constraint=Xeon&Gold6342'', ''--output'', ''outfiles/safety_check.out'',
          ''--error'', ''outfiles/safety_check.out'', ''-A'', ''PUT NON_EXCLUSIVE GROUP HERE'',
          ''--partition=PUT NON_EXCLUSIVE PARTITION HERE'', ''Slurm/safety_check.py'',
          ''outfiles/safety_check.txt'']"
    by code_simp
  ultimately show ?thesis
    using submitted unfolding w1_def by (simp add: barrier_world_def)
qed

end
